theory Spec2Isabelle
  imports Main "HOL-Library.Sublist"
begin

section \<open>The greeting and squaring script\<close>

text \<open>
  The program is \<^verbatim>\<open>src/main.py\<close>: a function \<^verbatim>\<open>greet\<close> and a
  \<^verbatim>\<open>main\<close> of six statements (source lines 17, 18, 19, 22, 23 and 24).
  The model keeps that shape: each statement is one case of \<open>exec\<close>, a run is the
  statement list executed in order, and the first exception ends it.

  Text is a \<open>string\<close>; one \<open>char\<close> stands for one code point below 256.
  Python's integers are unbounded, so they are \<open>int\<close>. Standard input is the text
  that \<^verbatim>\<open>sys.stdin\<close> delivers, with every line break already a single
  \<open>CHR 0x0A\<close>.
\<close>

subsection \<open>Exceptions and values\<close>

datatype exn = EOFError | ValueError | UnboundLocalError

datatype pyval = PyStr string | PyInt int

subsection \<open>Decimal conversion of integers\<close>

text \<open>
  CPython bounds the number of decimal digits that \<^verbatim>\<open>int(str)\<close> and
  \<^verbatim>\<open>str(int)\<close> will convert (\<^verbatim>\<open>sys.get_int_max_str_digits()\<close>).
  The setting is a parameter \<open>L\<close> of the model: \<open>0\<close> switches the bound off,
  the interpreter's default is \<open>4300\<close>, and a conversion of at most 640 digits is
  never refused.
\<close>

definition too_many_digits :: "nat \<Rightarrow> nat \<Rightarrow> bool" where
  "too_many_digits L n = (640 < n \<and> 0 < L \<and> L < n)"

definition digit_value :: "char \<Rightarrow> nat option" where
  "digit_value c =
     (let k = (of_char c :: nat) in if 48 \<le> k \<and> k \<le> 57 then Some (k - 48) else None)"

definition digit_char :: "nat \<Rightarrow> char" where
  "digit_char d = char_of (48 + d)"

text \<open>
  The white space that \<^verbatim>\<open>int\<close> skips around a numeral: the code points 9 to 13
  and 32, and of those from 128 to 255 the two that Unicode classes as white space,
  133 and 160.
\<close>

definition is_int_space :: "char \<Rightarrow> bool" where
  "is_int_space c = ((of_char c :: nat) \<in> set [9, 10, 11, 12, 13, 32, 133, 160])"

text \<open>
  The scanning loop of \<^verbatim>\<open>int\<close>: it consumes digits and underscores, rejects two
  underscores in a row and an underscore at the end, and stops at the first other
  character. \<open>prev\<close> is the character consumed last, \<open>acc\<close> the digits read so far,
  most significant first.
\<close>

fun scan_digits :: "char \<Rightarrow> nat list \<Rightarrow> string \<Rightarrow> (nat list \<times> string) option" where
  "scan_digits prev acc [] = (if prev = CHR ''_'' then None else Some (acc, []))"
| "scan_digits prev acc (c # cs) =
     (if c = CHR ''_'' then (if prev = CHR ''_'' then None else scan_digits c acc cs)
      else (case digit_value c of
              Some d \<Rightarrow> scan_digits c (acc @ [d]) cs
            | None \<Rightarrow> (if prev = CHR ''_'' then None else Some (acc, c # cs))))"

definition digits_value :: "nat list \<Rightarrow> nat" where
  "digits_value ds = fold (\<lambda>d a. 10 * a + d) ds 0"

text \<open>
  \<^verbatim>\<open>int(text)\<close> in base 10: leading white space, an optional sign, the digits
  (no underscore in front, at least one digit), trailing white space, nothing else;
  then the digit bound, which counts every digit written, leading zeros too.
\<close>

definition py_int :: "nat \<Rightarrow> string \<Rightarrow> exn + int" where
  "py_int L text =
     (let s1 = dropWhile is_int_space text;
          neg = (take 1 s1 = ''-'');
          s2 = (if take 1 s1 = ''+'' \<or> take 1 s1 = ''-'' then drop 1 s1 else s1)
      in if take 1 s2 = ''_'' then Inl ValueError
         else (case scan_digits (CHR 0x00) [] s2 of
                 None \<Rightarrow> Inl ValueError
               | Some (ds, rest) \<Rightarrow>
                   if ds = [] then Inl ValueError
                   else if dropWhile is_int_space rest \<noteq> [] then Inl ValueError
                   else if too_many_digits L (length ds) then Inl ValueError
                   else Inr ((if neg then - 1 else 1) * int (digits_value ds))))"

function digits_of :: "nat \<Rightarrow> string" where
  "digits_of n = (if n < 10 then [digit_char n] else digits_of (n div 10) @ [digit_char (n mod 10)])"
  by pat_completeness auto
termination
  by (relation "measure id") auto

declare digits_of.simps [simp del]

text \<open>
  \<^verbatim>\<open>str(n)\<close>: a minus sign for a negative number, then the digits of its
  magnitude; the digit bound does not count the sign.
\<close>

definition decimal :: "int \<Rightarrow> string" where
  "decimal n = (if n < 0 then ''-'' else []) @ digits_of (nat \<bar>n\<bar>)"

definition str_int :: "nat \<Rightarrow> int \<Rightarrow> exn + string" where
  "str_int L n =
     (if too_many_digits L (length (digits_of (nat \<bar>n\<bar>))) then Inl ValueError
      else Inr (decimal n))"

subsection \<open>Formatted string literals\<close>

datatype fpart = Lit string | Field pyval

fun format_py :: "nat \<Rightarrow> pyval \<Rightarrow> exn + string" where
  "format_py L (PyStr s) = Inr s"
| "format_py L (PyInt n) = str_int L n"

text \<open>The fields are formatted from left to right; the first one that raises ends the evaluation.\<close>

fun fstring :: "nat \<Rightarrow> fpart list \<Rightarrow> exn + string" where
  "fstring L [] = Inr []"
| "fstring L (Lit t # ps) =
     (case fstring L ps of Inl e \<Rightarrow> Inl e | Inr r \<Rightarrow> Inr (t @ r))"
| "fstring L (Field v # ps) =
     (case format_py L v of
        Inl e \<Rightarrow> Inl e
      | Inr t \<Rightarrow> (case fstring L ps of Inl e \<Rightarrow> Inl e | Inr r \<Rightarrow> Inr (t @ r)))"

subsection \<open>The function greet\<close>

definition greet :: "nat \<Rightarrow> pyval \<Rightarrow> exn + string" where
  "greet L name = fstring L [Lit ''Hello, '', Field name, Lit ''! Welcome to the improved code.'']"

subsection \<open>Standard input and output\<close>

text \<open>
  The state holds the text still unread on standard input and the chronological record
  of what the program did to its standard streams. \<^verbatim>\<open>input(prompt)\<close> writes the
  prompt to standard output, then reads up to the next line break (which it drops), and
  raises \<^verbatim>\<open>EOFError\<close> when nothing is left to read. \<^verbatim>\<open>print(text)\<close> writes
  the text and a line break.
\<close>

datatype event = Prompt string | ReadLine string | ReadEOF | Print string

record state =
  stdin :: string
  trace :: "event list"
  user_name :: "string option"
  greeting :: "string option"
  number :: "int option"
  result :: "int option"

definition initial :: "string \<Rightarrow> state" where
  "initial inp = \<lparr>stdin = inp, trace = [], user_name = None, greeting = None,
                  number = None, result = None\<rparr>"

definition read_line :: "string \<Rightarrow> string \<times> string" where
  "read_line inp =
     (takeWhile (\<lambda>c. c \<noteq> CHR 0x0A) inp, drop 1 (dropWhile (\<lambda>c. c \<noteq> CHR 0x0A) inp))"

definition input_py :: "string \<Rightarrow> state \<Rightarrow> (exn + string) \<times> state" where
  "input_py prompt s =
     (let s1 = s\<lparr>trace := trace s @ [Prompt prompt]\<rparr>
      in if stdin s1 = [] then (Inl EOFError, s1\<lparr>trace := trace s1 @ [ReadEOF]\<rparr>)
         else (case read_line (stdin s1) of
                 (line, rest) \<Rightarrow>
                   (Inr line, s1\<lparr>stdin := rest, trace := trace s1 @ [ReadLine line]\<rparr>)))"

definition print_py :: "string \<Rightarrow> state \<Rightarrow> state" where
  "print_py text s = s\<lparr>trace := trace s @ [Print text]\<rparr>"

fun render :: "event \<Rightarrow> string" where
  "render (Prompt p) = p"
| "render (ReadLine l) = []"
| "render ReadEOF = []"
| "render (Print t) = t @ [CHR 0x0A]"

definition stdout_text :: "event list \<Rightarrow> string" where
  "stdout_text evs = concat (map render evs)"

fun printed :: "event list \<Rightarrow> string list" where
  "printed [] = []"
| "printed (Print t # evs) = t # printed evs"
| "printed (_ # evs) = printed evs"

fun read_attempts :: "event list \<Rightarrow> nat" where
  "read_attempts [] = 0"
| "read_attempts (ReadLine l # evs) = Suc (read_attempts evs)"
| "read_attempts (ReadEOF # evs) = Suc (read_attempts evs)"
| "read_attempts (_ # evs) = read_attempts evs"

text \<open>
  What a run does to its standard streams is compared by the kind of each action: a read
  attempt is a line read or an end of input met.
\<close>

datatype kind = KPrompt | KRead | KPrint

fun kind_of :: "event \<Rightarrow> kind" where
  "kind_of (Prompt p) = KPrompt"
| "kind_of (ReadLine l) = KRead"
| "kind_of ReadEOF = KRead"
| "kind_of (Print t) = KPrint"

subsection \<open>The function main\<close>

text \<open>
  The locals of \<^verbatim>\<open>main\<close> are fields of the state, unbound until assigned; reading
  an unbound local raises \<^verbatim>\<open>UnboundLocalError\<close>. A statement returns the exception
  it raised, if any, and the state it left behind. Line 22 reads its line before
  \<^verbatim>\<open>int\<close> runs, so the line is consumed even when the conversion fails.
\<close>

datatype stmt = Line17 | Line18 | Line19 | Line22 | Line23 | Line24

fun load :: "'a option \<Rightarrow> exn + 'a" where
  "load None = Inl UnboundLocalError"
| "load (Some v) = Inr v"

fun exec :: "nat \<Rightarrow> stmt \<Rightarrow> state \<Rightarrow> exn option \<times> state" where
  "exec L Line17 s =
     (case input_py ''Please enter your name: '' s of
        (Inl e, s') \<Rightarrow> (Some e, s')
      | (Inr line, s') \<Rightarrow> (None, s'\<lparr>user_name := Some line\<rparr>))"
| "exec L Line18 s =
     (case load (user_name s) of
        Inl e \<Rightarrow> (Some e, s)
      | Inr name \<Rightarrow>
          (case greet L (PyStr name) of
             Inl e \<Rightarrow> (Some e, s)
           | Inr g \<Rightarrow> (None, s\<lparr>greeting := Some g\<rparr>)))"
| "exec L Line19 s =
     (case load (greeting s) of
        Inl e \<Rightarrow> (Some e, s)
      | Inr g \<Rightarrow> (None, print_py g s))"
| "exec L Line22 s =
     (case input_py ''Enter a number to square: '' s of
        (Inl e, s') \<Rightarrow> (Some e, s')
      | (Inr line, s') \<Rightarrow>
          (case py_int L line of
             Inl e \<Rightarrow> (Some e, s')
           | Inr n \<Rightarrow> (None, s'\<lparr>number := Some n\<rparr>)))"
| "exec L Line23 s =
     (case load (number s) of
        Inl e \<Rightarrow> (Some e, s)
      | Inr n \<Rightarrow> (None, s\<lparr>result := Some (n ^ 2)\<rparr>))"
| "exec L Line24 s =
     (case load (number s) of
        Inl e \<Rightarrow> (Some e, s)
      | Inr n \<Rightarrow>
          (case load (result s) of
             Inl e \<Rightarrow> (Some e, s)
           | Inr r \<Rightarrow>
               (case fstring L [Lit ''The square of '', Field (PyInt n), Lit '' is '', Field (PyInt r)] of
                  Inl e \<Rightarrow> (Some e, s)
                | Inr t \<Rightarrow> (None, print_py t s))))"

fun run :: "nat \<Rightarrow> stmt list \<Rightarrow> state \<Rightarrow> exn option \<times> state" where
  "run L [] s = (None, s)"
| "run L (c # cs) s =
     (case exec L c s of
        (Some e, s') \<Rightarrow> (Some e, s')
      | (None, s') \<Rightarrow> run L cs s')"

definition main_body :: "stmt list" where
  "main_body = [Line17, Line18, Line19, Line22, Line23, Line24]"

definition main_py :: "nat \<Rightarrow> string \<Rightarrow> exn option \<times> state" where
  "main_py L inp = run L main_body (initial inp)"

section \<open>Runs of main, block by block\<close>

text \<open>
  The only exception that the two conversions raise is \<^verbatim>\<open>ValueError\<close>. The lemmas
  after that follow a run through the source: lines 17 to 19, line 22 in its three
  outcomes, lines 23 and 24; \<open>main_py_cases\<close> puts them together.
\<close>

lemma py_int_error: "py_int L t = Inl e \<Longrightarrow> e = ValueError"
  by (auto simp: py_int_def Let_def split: if_splits option.splits prod.splits)

lemma str_int_error: "str_int L n = Inl e \<Longrightarrow> e = ValueError"
  by (auto simp: str_int_def split: if_splits)

lemma run_first_block:
  "inp \<noteq> [] \<Longrightarrow>
   run L (Line17 # Line18 # Line19 # cs) (initial inp) =
   run L cs \<lparr>stdin = snd (read_line inp),
     trace = [Prompt ''Please enter your name: '', ReadLine (fst (read_line inp)),
              Print (''Hello, '' @ fst (read_line inp) @ ''! Welcome to the improved code.'')],
     user_name = Some (fst (read_line inp)),
     greeting = Some (''Hello, '' @ fst (read_line inp) @ ''! Welcome to the improved code.''),
     number = None, result = None\<rparr>"
  by (simp add: initial_def input_py_def print_py_def greet_def case_prod_beta)

lemma run_first_eof:
  "run L (Line17 # cs) (initial []) =
   (Some EOFError, (initial []) \<lparr>trace := [Prompt ''Please enter your name: '', ReadEOF]\<rparr>)"
  by (simp add: initial_def input_py_def)

lemma run_number_eof:
  "stdin s = [] \<Longrightarrow>
   run L (Line22 # cs) s =
   (Some EOFError, s\<lparr>trace := trace s @ [Prompt ''Enter a number to square: '', ReadEOF]\<rparr>)"
  by (simp add: input_py_def)

lemma run_number_invalid:
  "stdin s \<noteq> [] \<Longrightarrow> py_int L (fst (read_line (stdin s))) = Inl e \<Longrightarrow>
   run L (Line22 # cs) s =
   (Some e, s\<lparr>stdin := snd (read_line (stdin s)),
       trace := trace s @ [Prompt ''Enter a number to square: '', ReadLine (fst (read_line (stdin s)))]\<rparr>)"
  by (simp add: input_py_def case_prod_beta)

lemma run_number_valid:
  "stdin s \<noteq> [] \<Longrightarrow> py_int L (fst (read_line (stdin s))) = Inr n \<Longrightarrow>
   run L (Line22 # cs) s =
   run L cs (s\<lparr>stdin := snd (read_line (stdin s)),
       trace := trace s @ [Prompt ''Enter a number to square: '', ReadLine (fst (read_line (stdin s)))],
       number := Some n\<rparr>)"
  by (simp add: input_py_def case_prod_beta)

lemma run_square_block:
  "number s = Some n \<Longrightarrow>
   run L [Line23, Line24] s =
   (case str_int L n of
      Inl e \<Rightarrow> (Some e, s\<lparr>result := Some (n * n)\<rparr>)
    | Inr a \<Rightarrow>
       (case str_int L (n * n) of
          Inl e \<Rightarrow> (Some e, s\<lparr>result := Some (n * n)\<rparr>)
        | Inr b \<Rightarrow> (None, s\<lparr>trace := trace s @ [Print (''The square of '' @ a @ '' is '' @ b)],
                          result := Some (n * n)\<rparr>)))"
  by (simp add: print_py_def power2_eq_square split: sum.splits)


lemma main_eof_name:
  "main_py L [] =
   (Some EOFError, (initial []) \<lparr>trace := [Prompt ''Please enter your name: '', ReadEOF]\<rparr>)"
  unfolding main_py_def main_body_def by (rule run_first_eof)

lemma main_after_greeting:
  "inp \<noteq> [] \<Longrightarrow>
   main_py L inp =
   run L [Line22, Line23, Line24] \<lparr>stdin = snd (read_line inp),
     trace = [Prompt ''Please enter your name: '', ReadLine (fst (read_line inp)),
              Print (''Hello, '' @ fst (read_line inp) @ ''! Welcome to the improved code.'')],
     user_name = Some (fst (read_line inp)),
     greeting = Some (''Hello, '' @ fst (read_line inp) @ ''! Welcome to the improved code.''),
     number = None, result = None\<rparr>"
  unfolding main_py_def main_body_def by (rule run_first_block)


lemma main_py_cases:
  "main_py L inp =
   (if inp = [] then
      (Some EOFError,
       \<lparr>stdin = [], trace = [Prompt ''Please enter your name: '', ReadEOF],
        user_name = None, greeting = None, number = None, result = None\<rparr>)
    else
      let l1 = fst (read_line inp); r1 = snd (read_line inp);
          g = ''Hello, '' @ l1 @ ''! Welcome to the improved code.'';
          t3 = [Prompt ''Please enter your name: '', ReadLine l1, Print g]
      in if r1 = [] then
           (Some EOFError,
            \<lparr>stdin = [], trace = t3 @ [Prompt ''Enter a number to square: '', ReadEOF],
             user_name = Some l1, greeting = Some g, number = None, result = None\<rparr>)
         else
           let l2 = fst (read_line r1); r2 = snd (read_line r1);
               t5 = t3 @ [Prompt ''Enter a number to square: '', ReadLine l2]
           in (case py_int L l2 of
                 Inl e \<Rightarrow>
                   (Some e,
                    \<lparr>stdin = r2, trace = t5, user_name = Some l1, greeting = Some g,
                     number = None, result = None\<rparr>)
               | Inr n \<Rightarrow>
                   if too_many_digits L (length (digits_of (nat \<bar>n\<bar>)))
                      \<or> too_many_digits L (length (digits_of (nat \<bar>n * n\<bar>)))
                   then
                     (Some ValueError,
                      \<lparr>stdin = r2, trace = t5, user_name = Some l1, greeting = Some g,
                       number = Some n, result = Some (n * n)\<rparr>)
                   else
                     (None,
                      \<lparr>stdin = r2,
                       trace = t5 @ [Print (''The square of '' @ decimal n @ '' is '' @ decimal (n * n))],
                       user_name = Some l1, greeting = Some g,
                       number = Some n, result = Some (n * n)\<rparr>)))"
proof (cases "inp = []")
  case True
  then show ?thesis by (simp add: main_eof_name initial_def)
next
  case ne: False
  show ?thesis
  proof (cases "snd (read_line inp) = []")
    case True
    with ne show ?thesis
      by (simp add: main_after_greeting run_number_eof Let_def del: run.simps exec.simps)
  next
    case more: False
    show ?thesis
    proof (cases "py_int L (fst (read_line (snd (read_line inp))))")
      case (Inl e)
      with ne more show ?thesis
        by (simp add: main_after_greeting run_number_invalid Let_def del: run.simps exec.simps)
    next
      case (Inr n)
      with ne more show ?thesis
        by (simp add: main_after_greeting run_number_valid run_square_block str_int_def Let_def
              del: run.simps exec.simps)
    qed
  qed
qed

section \<open>Decimal numerals\<close>

text \<open>
  \<open>digits_of\<close> writes digits only, without a leading zero, and \<^verbatim>\<open>int\<close> reads
  back the number that \<^verbatim>\<open>str\<close> wrote. The number of digits grows with the number.
\<close>

lemma digit_value_digit_char: "d < 10 \<Longrightarrow> digit_value (digit_char d) = Some d"
  by (simp add: digit_value_def digit_char_def)

lemma digit_not_special:
  "digit_value c \<noteq> None \<Longrightarrow>
   \<not> is_int_space c \<and> c \<noteq> CHR ''+'' \<and> c \<noteq> CHR ''-'' \<and> c \<noteq> CHR ''_'' \<and> c \<noteq> CHR 0x0A"
  by (auto simp: digit_value_def is_int_space_def Let_def split: if_splits)

lemma digits_of_nonempty: "digits_of n \<noteq> []"
  by (subst digits_of.simps) simp

lemma digits_of_all_digits: "list_all (\<lambda>c. digit_value c \<noteq> None) (digits_of n)"
proof (induction n rule: digits_of.induct)
  case (1 n)
  show ?case
  proof (cases "n < 10")
    case True
    then show ?thesis
      by (subst digits_of.simps) (simp add: digit_value_digit_char)
  next
    case False
    with 1 show ?thesis
      by (subst digits_of.simps) (simp add: digit_value_digit_char)
  qed
qed

lemma scan_digits_all:
  "list_all (\<lambda>c. digit_value c \<noteq> None) cs \<Longrightarrow> prev \<noteq> CHR ''_'' \<Longrightarrow>
   scan_digits prev acc cs = Some (acc @ map (\<lambda>c. the (digit_value c)) cs, [])"
proof (induction cs arbitrary: prev acc)
  case Nil
  then show ?case by simp
next
  case (Cons c cs)
  from Cons.prems have c: "digit_value c \<noteq> None" and cs: "list_all (\<lambda>c. digit_value c \<noteq> None) cs"
    by simp_all
  from c have nu: "c \<noteq> CHR ''_''" using digit_not_special by blast
  from c obtain d where d: "digit_value c = Some d" by auto
  show ?case using Cons.IH [OF cs nu, of "acc @ [d]"] nu d by simp
qed

lemma digits_value_snoc: "digits_value (ds @ [d]) = 10 * digits_value ds + d"
  by (simp add: digits_value_def)

lemma digits_value_digits_of: "digits_value (map (\<lambda>c. the (digit_value c)) (digits_of n)) = n"
proof (induction n rule: digits_of.induct)
  case (1 n)
  show ?case
  proof (cases "n < 10")
    case True
    then show ?thesis
      by (subst digits_of.simps) (simp add: digit_value_digit_char digits_value_def)
  next
    case False
    with 1 show ?thesis
      by (subst digits_of.simps) (simp add: digit_value_digit_char digits_value_snoc)
  qed
qed

lemma py_int_digit_string:
  assumes "cs \<noteq> []" and "list_all (\<lambda>c. digit_value c \<noteq> None) cs"
  shows "py_int L cs =
     (if too_many_digits L (length cs) then Inl ValueError
      else Inr (int (digits_value (map (\<lambda>c. the (digit_value c)) cs))))"
proof -
  from assms obtain c cs' where cs: "cs = c # cs'" by (cases cs) auto
  with assms(2) have "digit_value c \<noteq> None" by simp
  then have sp: "\<not> is_int_space c" "c \<noteq> CHR ''+''" "c \<noteq> CHR ''-''" "c \<noteq> CHR ''_''"
    using digit_not_special by blast+
  have scan: "scan_digits (CHR 0x00) [] cs = Some (map (\<lambda>c. the (digit_value c)) cs, [])"
    using scan_digits_all [OF assms(2), of "CHR 0x00" "[]"] by simp
  have "dropWhile is_int_space cs = cs" using sp cs by simp
  then show ?thesis
    using sp scan assms(1) by (simp add: py_int_def cs [symmetric] Let_def) (simp add: cs)
qed

lemma py_int_minus_digit_string:
  assumes "cs \<noteq> []" and "list_all (\<lambda>c. digit_value c \<noteq> None) cs"
  shows "py_int L (CHR ''-'' # cs) =
     (if too_many_digits L (length cs) then Inl ValueError
      else Inr (- int (digits_value (map (\<lambda>c. the (digit_value c)) cs))))"
proof -
  from assms obtain c cs' where cs: "cs = c # cs'" by (cases cs) auto
  with assms(2) have "digit_value c \<noteq> None" by simp
  then have sp: "c \<noteq> CHR ''_''"
    using digit_not_special by blast
  have scan: "scan_digits (CHR 0x00) [] cs = Some (map (\<lambda>c. the (digit_value c)) cs, [])"
    using scan_digits_all [OF assms(2), of "CHR 0x00" "[]"] by simp
  have "\<not> is_int_space (CHR ''-'')" by (simp add: is_int_space_def)
  then have "dropWhile is_int_space (CHR ''-'' # cs) = CHR ''-'' # cs" by simp
  then show ?thesis
    using sp scan assms(1) by (simp add: py_int_def Let_def) (simp add: cs)
qed

lemma py_int_decimal:
  assumes "\<not> too_many_digits L (length (digits_of (nat \<bar>n\<bar>)))"
  shows "py_int L (decimal n) = Inr n"
proof (cases "n < 0")
  case True
  then have "decimal n = CHR ''-'' # digits_of (nat \<bar>n\<bar>)" by (simp add: decimal_def)
  moreover note py_int_minus_digit_string [OF digits_of_nonempty digits_of_all_digits, of L "nat \<bar>n\<bar>"]
  ultimately show ?thesis using assms True
    by (simp add: digits_value_digits_of)
next
  case False
  then have "decimal n = digits_of (nat \<bar>n\<bar>)" by (simp add: decimal_def)
  moreover note py_int_digit_string [OF digits_of_nonempty digits_of_all_digits, of L "nat \<bar>n\<bar>"]
  ultimately show ?thesis using assms False
    by (simp add: digits_value_digits_of)
qed

lemma read_line_terminated:
  "CHR 0x0A \<notin> set l \<Longrightarrow> read_line (l @ CHR 0x0A # rest) = (l, rest)"
  by (induction l) (auto simp: read_line_def)

lemma decimal_no_newline: "CHR 0x0A \<notin> set (decimal n)"
proof -
  have "\<And>c. c \<in> set (digits_of (nat \<bar>n\<bar>)) \<Longrightarrow> c \<noteq> CHR 0x0A"
    using digits_of_all_digits [of "nat \<bar>n\<bar>"] digit_not_special
    by (auto simp: list_all_iff)
  then show ?thesis by (auto simp: decimal_def)
qed

lemma digits_of_length_mono: "a \<le> b \<Longrightarrow> length (digits_of a) \<le> length (digits_of b)"
proof (induction b arbitrary: a rule: digits_of.induct)
  case (1 b)
  show ?case
  proof (cases "b < 10")
    case True
    with 1(2) have "a < 10" by simp
    with True show ?thesis
      by (subst digits_of.simps, subst (2) digits_of.simps) simp
  next
    case False
    show ?thesis
    proof (cases "a < 10")
      case True
      with False show ?thesis
        by (subst digits_of.simps, subst (2) digits_of.simps) simp
    next
      case af: False
      from 1(2) have "a div 10 \<le> b div 10" by (rule div_le_mono)
      from 1(1) [OF False this] af False show ?thesis
        by (subst digits_of.simps, subst (2) digits_of.simps) simp
    qed
  qed
qed

lemma too_many_digits_mono: "too_many_digits L m \<Longrightarrow> m \<le> k \<Longrightarrow> too_many_digits L k"
  by (auto simp: too_many_digits_def)

lemma abs_le_square: "nat \<bar>n\<bar> \<le> nat \<bar>n * n\<bar>"
  unfolding nat_abs_mult_distrib by (rule le_square)

lemma digits_of_no_leading_zero: "0 < n \<Longrightarrow> hd (digits_of n) \<noteq> CHR ''0''"
proof (induction n rule: digits_of.induct)
  case (1 n)
  have zero: "digit_value (CHR ''0'') = Some 0" by (simp add: digit_value_def)
  show ?case
  proof (cases "n < 10")
    case True
    with 1(2) digit_value_digit_char [of n] zero show ?thesis
      by (subst digits_of.simps) auto
  next
    case False
    then have "0 < n div 10" by simp
    from 1(1) [OF False this] False show ?thesis
      by (subst digits_of.simps) (simp add: digits_of_nonempty)
  qed
qed

lemma digit_char_numerals:
  "digit_char 0 = CHR ''0''" "digit_char 1 = CHR ''1''" "digit_char (Suc 0) = CHR ''1''"
  "digit_char 2 = CHR ''2''" "digit_char 3 = CHR ''3''" "digit_char 4 = CHR ''4''"
  "digit_char 5 = CHR ''5''" "digit_char 6 = CHR ''6''" "digit_char 7 = CHR ''7''"
  "digit_char 8 = CHR ''8''" "digit_char 9 = CHR ''9''"
  by (simp_all add: digit_char_def char_of_eq_iff)

section \<open>Properties of greet\<close>

text \<open>
  C1. For every string \<open>s\<close>, \<open>greet(s)\<close> returns exactly \<open>"Hello, "\<close>, then \<open>s\<close>
  unchanged, then \<open>"! Welcome to the improved code."\<close>: the comma, the space after it,
  the exclamation mark and the final period are all there.
\<close>

theorem greet_exact:
  "greet L (PyStr s) = Inr (''Hello, '' @ s @ ''! Welcome to the improved code.'')"
  by (simp add: greet_def)

text \<open>
  C6. \<open>greet\<close> is total and pure on text: for every string, the empty one included, it
  returns a value and raises nothing; the string stands unchanged in the result, after the
  seven characters of \<open>"Hello, "\<close>; the empty string gives
  \<open>"Hello, ! Welcome to the improved code."\<close>. The function takes no state and returns
  none, and the statement that calls it (line 18) leaves standard input and the record of
  the standard streams as they were.
\<close>

theorem greet_total:
  "\<not> isl (greet L (PyStr s))
   \<and> greet L (PyStr []) = Inr ''Hello, ! Welcome to the improved code.''
   \<and> take (length s) (drop 7 (projr (greet L (PyStr s)))) = s
   \<and> stdin (snd (exec L Line18 st)) = stdin st
   \<and> trace (snd (exec L Line18 st)) = trace st"
  by (cases "user_name st") (simp_all add: greet_def)

section \<open>The squaring step\<close>

text \<open>
  C2. Whenever the second input line parses to an integer \<open>n\<close> (the local
  \<open>number\<close> is bound to \<open>n\<close>), the local \<open>result\<close> computed by
  \<open>number ** 2\<close> is exactly \<open>n * n\<close>, and \<open>n\<close> is what \<open>int\<close> returned for
  the second line of standard input.
\<close>

theorem square_is_product:
  assumes "main_py L inp = (ex, s)" and "number s = Some n"
  shows "result s = Some (n * n) \<and> py_int L (fst (read_line (snd (read_line inp)))) = Inr n"
  using assms
  by (auto simp: main_py_cases Let_def split: if_splits sum.splits)

theorem square_is_product_witness:
  "main_py 4300 ''Ada\<newline>4\<newline>'' =
     (None, \<lparr>stdin = [],
        trace = [Prompt ''Please enter your name: '', ReadLine ''Ada'',
                 Print ''Hello, Ada! Welcome to the improved code.'',
                 Prompt ''Enter a number to square: '', ReadLine ''4'',
                 Print ''The square of 4 is 16''],
        user_name = Some ''Ada'', greeting = Some ''Hello, Ada! Welcome to the improved code.'',
        number = Some 4, result = Some 16\<rparr>)
   \<and> Some (16::int) = Some (4 * 4)
   \<and> py_int 4300 (fst (read_line (snd (read_line ''Ada\<newline>4\<newline>'')))) = Inr 4"
proof -
  have run: "main_py 4300 ''Ada\<newline>4\<newline>'' =
     (None, \<lparr>stdin = [],
        trace = [Prompt ''Please enter your name: '', ReadLine ''Ada'',
                 Print ''Hello, Ada! Welcome to the improved code.'',
                 Prompt ''Enter a number to square: '', ReadLine ''4'',
                 Print ''The square of 4 is 16''],
        user_name = Some ''Ada'', greeting = Some ''Hello, Ada! Welcome to the improved code.'',
        number = Some 4, result = Some 16\<rparr>)"
    by code_simp
  from square_is_product [OF run] show ?thesis using run by simp
qed

section \<open>Failing runs\<close>




text \<open>
  C5. A run whose standard input is exhausted when one of the two reads is attempted ends
  in \<^verbatim>\<open>EOFError\<close> (the spec's InputExhausted). When nothing at all is supplied, no
  line is printed: standard output holds the first prompt and no line break. When the
  input ends after the first line, the greeting is the only line printed. A last line
  without a line break counts as a line.
\<close>

theorem eof_terminates:
  "(inp = [] \<longrightarrow>
      fst (main_py L inp) = Some EOFError
      \<and> printed (trace (snd (main_py L inp))) = []
      \<and> stdout_text (trace (snd (main_py L inp))) = ''Please enter your name: '')
   \<and> (inp \<noteq> [] \<and> snd (read_line inp) = [] \<longrightarrow>
      fst (main_py L inp) = Some EOFError
      \<and> printed (trace (snd (main_py L inp))) =
          [''Hello, '' @ fst (read_line inp) @ ''! Welcome to the improved code.''])"
  by (simp add: main_py_cases Let_def stdout_text_def)

theorem eof_terminates_witness:
  "fst (main_py 4300 []) = Some EOFError
   \<and> printed (trace (snd (main_py 4300 []))) = []
   \<and> stdout_text (trace (snd (main_py 4300 []))) = ''Please enter your name: ''
   \<and> ''Bob'' \<noteq> [] \<and> snd (read_line ''Bob'') = []
   \<and> fst (main_py 4300 ''Bob'') = Some EOFError
   \<and> printed (trace (snd (main_py 4300 ''Bob''))) = [''Hello, Bob! Welcome to the improved code.'']"
  using eof_terminates [of "[]" 4300] eof_terminates [of "''Bob''" 4300]
  by (simp add: read_line_def)

section \<open>Successful runs\<close>




text \<open>
  C10. The square line shows the parsed value in decimal, not the text that was typed: in
  every successful run the second line parses to some \<open>m\<close> and the line printed is
  \<open>"The square of "\<close>, the decimal numeral of \<open>m\<close>, \<open>" is "\<close>, the decimal numeral of
  \<open>m * m\<close>. That numeral is canonical: \<^verbatim>\<open>int\<close> reads it back as the same number,
  and it has no leading zero. The input \<open>007\<close> prints \<open>"The square of 7 is 49"\<close>, the
  input \<open>+5\<close> prints \<open>"The square of 5 is 25"\<close>.
\<close>

theorem square_line_canonical:
  "(fst (main_py L inp) = None \<longrightarrow>
      (\<exists>m. py_int L (fst (read_line (snd (read_line inp)))) = Inr m
         \<and> printed (trace (snd (main_py L inp))) =
             [''Hello, '' @ fst (read_line inp) @ ''! Welcome to the improved code.'',
              ''The square of '' @ decimal m @ '' is '' @ decimal (m * m)]))
   \<and> py_int 0 (decimal n) = Inr n
   \<and> (n \<noteq> 0 \<longrightarrow> hd (digits_of (nat \<bar>n\<bar>)) \<noteq> CHR ''0'')
   \<and> printed (trace (snd (main_py L ''Ada\<newline>007\<newline>''))) =
        [''Hello, Ada! Welcome to the improved code.'', ''The square of 7 is 49'']
   \<and> printed (trace (snd (main_py L ''Ada\<newline>+5\<newline>''))) =
        [''Hello, Ada! Welcome to the improved code.'', ''The square of 5 is 25'']"
proof (intro conjI impI)
  assume "fst (main_py L inp) = None"
  then show "\<exists>m. py_int L (fst (read_line (snd (read_line inp)))) = Inr m
         \<and> printed (trace (snd (main_py L inp))) =
             [''Hello, '' @ fst (read_line inp) @ ''! Welcome to the improved code.'',
              ''The square of '' @ decimal m @ '' is '' @ decimal (m * m)]"
    by (auto simp: main_py_cases Let_def split: if_splits sum.splits)
next
  show "py_int 0 (decimal n) = Inr n"
    by (rule py_int_decimal) (simp add: too_many_digits_def)
next
  assume "n \<noteq> 0"
  then show "hd (digits_of (nat \<bar>n\<bar>)) \<noteq> CHR ''0''"
    by (intro digits_of_no_leading_zero) simp
next
  show "printed (trace (snd (main_py L ''Ada\<newline>007\<newline>''))) =
        [''Hello, Ada! Welcome to the improved code.'', ''The square of 7 is 49'']"
    by (simp add: main_py_cases read_line_def py_int_def is_int_space_def digit_value_def
          digits_value_def too_many_digits_def digits_of.simps decimal_def digit_char_numerals Let_def)
next
  show "printed (trace (snd (main_py L ''Ada\<newline>+5\<newline>''))) =
        [''Hello, Ada! Welcome to the improved code.'', ''The square of 5 is 25'']"
    by (simp add: main_py_cases read_line_def py_int_def is_int_space_def digit_value_def
          digits_value_def too_many_digits_def digits_of.simps decimal_def digit_char_numerals Let_def)
qed

theorem square_line_canonical_witness:
  "fst (main_py 4300 ''Bob\<newline> -03\<newline>'') = None
   \<and> py_int 4300 (fst (read_line (snd (read_line ''Bob\<newline> -03\<newline>'')))) = Inr (- 3)
   \<and> printed (trace (snd (main_py 4300 ''Bob\<newline> -03\<newline>''))) =
        [''Hello, Bob! Welcome to the improved code.'', ''The square of -3 is 9'']
   \<and> (- 3 :: int) \<noteq> 0 \<and> hd (digits_of (nat \<bar>- 3\<bar>)) \<noteq> CHR ''0''"
proof -
  have ok: "fst (main_py 4300 ''Bob\<newline> -03\<newline>'') = None" by code_simp
  have p: "py_int 4300 (fst (read_line (snd (read_line ''Bob\<newline> -03\<newline>'')))) = Inr (- 3)"
    by code_simp
  from square_line_canonical [of 4300 "''Bob\<newline> -03\<newline>''" "- 3"] ok p
  show ?thesis by (simp add: decimal_def digits_of.simps digit_char_numerals read_line_def)
qed

section \<open>The order of a run\<close>

text \<open>
  C7. Every run goes once through name, number, end. Its actions on the standard streams
  are an initial part of: prompt, read, print, prompt, read, print. So it reads at most
  twice, the name first; after the read of the name comes the greeting, and only then the
  second prompt and the read of the number; no action is repeated; and the run has all six
  actions exactly when it ends without an exception. A run ends normally, in
  \<^verbatim>\<open>EOFError\<close> or in \<^verbatim>\<open>ValueError\<close>, and in nothing else.
\<close>

theorem sequential_run:
  "prefix (map kind_of (trace (snd (main_py L inp))))
          [KPrompt, KRead, KPrint, KPrompt, KRead, KPrint]
   \<and> read_attempts (trace (snd (main_py L inp))) \<le> 2
   \<and> take 2 (trace (snd (main_py L inp))) =
        [Prompt ''Please enter your name: '',
         if inp = [] then ReadEOF else ReadLine (fst (read_line inp))]
   \<and> (if inp = [] then length (trace (snd (main_py L inp))) = 2
       else take 3 (drop 2 (trace (snd (main_py L inp)))) =
             [Print (''Hello, '' @ fst (read_line inp) @ ''! Welcome to the improved code.''),
              Prompt ''Enter a number to square: '',
              if snd (read_line inp) = [] then ReadEOF
              else ReadLine (fst (read_line (snd (read_line inp))))])
   \<and> (fst (main_py L inp) = None) = (length (trace (snd (main_py L inp))) = 6)
   \<and> fst (main_py L inp) \<in> {None, Some EOFError, Some ValueError}"
  using py_int_error [of L "fst (read_line (snd (read_line inp)))"]
  by (auto simp: main_py_cases Let_def split: sum.splits)

section \<open>What int accepts\<close>

text \<open>
  C8. \<^verbatim>\<open>int\<close> accepts more than plain digit strings: a numeral between blanks
  (\<open>" 42 "\<close>), one with a sign in front (\<open>"+7"\<close>) and one with an underscore between
  digits (\<open>"1_000"\<close>) all parse, although a blank, a plus sign and an underscore are no
  digits; with \<open>" 42 "\<close> as its second line a run ends without an exception.
\<close>

theorem int_lenient:
  "py_int L '' 42 '' = Inr 42 \<and> py_int L ''+7'' = Inr 7 \<and> py_int L ''1_000'' = Inr 1000
   \<and> digit_value CHR '' '' = None \<and> digit_value CHR ''+'' = None \<and> digit_value CHR ''_'' = None
   \<and> fst (main_py L ''Ada\<newline> 42 \<newline>'') = None"
  by (simp add: main_py_cases read_line_def py_int_def is_int_space_def digit_value_def digits_value_def too_many_digits_def digits_of.simps Let_def)

text \<open>
  C9, as stated, says that parsing, squaring and printing succeed at every magnitude.
  Under the interpreter's default digit bound of 4300 they do not: a second line of 4301
  nines is the numeral of an integer, and \<^verbatim>\<open>int\<close> refuses it with
  \<^verbatim>\<open>ValueError\<close>; no number is bound and no square line is printed.
\<close>

theorem digit_limit_counterexample:
  "fst (main_py 4300 (''Ada'' @ CHR 0x0A # replicate 4301 CHR ''9'' @ [CHR 0x0A])) = Some ValueError
   \<and> number (snd (main_py 4300 (''Ada'' @ CHR 0x0A # replicate 4301 CHR ''9'' @ [CHR 0x0A]))) = None
   \<and> printed (trace (snd (main_py 4300 (''Ada'' @ CHR 0x0A # replicate 4301 CHR ''9'' @ [CHR 0x0A]))))
       = [''Hello, Ada! Welcome to the improved code.'']"
proof -
  have r1: "read_line (''Ada'' @ CHR 0x0A # replicate 4301 CHR ''9'' @ [CHR 0x0A]) =
      (''Ada'', replicate 4301 CHR ''9'' @ [CHR 0x0A])"
    by (rule read_line_terminated) simp
  have r2: "read_line (replicate 4301 CHR ''9'' @ [CHR 0x0A]) = (replicate 4301 CHR ''9'', [])"
    by (rule read_line_terminated) simp
  have p: "py_int 4300 (replicate 4301 CHR ''9'') = Inl ValueError"
    by (subst py_int_digit_string)
       (simp_all add: list_all_iff digit_value_def too_many_digits_def)
  note run = main_py_cases [of 4300 "''Ada'' @ CHR 0x0A # replicate 4301 CHR ''9'' @ [CHR 0x0A]",
      unfolded Let_def r1 fst_conv snd_conv r2 p]
  show ?thesis unfolding run by simp
qed

text \<open>
  C9, amended. The integers have no width: for every integer \<open>n\<close> whose square has no
  more decimal digits than the digit bound lets through (every \<open>n\<close> when the bound is
  switched off, and always up to 640 digits), a run given the numeral of \<open>n\<close> parses it,
  computes exactly \<open>n * n\<close> without overflow or wrap-around, and prints it. With a bound
  in force, \<^verbatim>\<open>int\<close> refuses a digit string that exceeds it with \<^verbatim>\<open>ValueError\<close>.
\<close>

theorem unbounded_square:
  "(CHR 0x0A \<notin> set name \<and> \<not> too_many_digits L (length (digits_of (nat \<bar>n * n\<bar>))) \<longrightarrow>
      main_py L (name @ [CHR 0x0A] @ decimal n @ [CHR 0x0A]) =
      (None,
       \<lparr>stdin = [],
        trace = [Prompt ''Please enter your name: '', ReadLine name,
                 Print (''Hello, '' @ name @ ''! Welcome to the improved code.''),
                 Prompt ''Enter a number to square: '', ReadLine (decimal n),
                 Print (''The square of '' @ decimal n @ '' is '' @ decimal (n * n))],
        user_name = Some name,
        greeting = Some (''Hello, '' @ name @ ''! Welcome to the improved code.''),
        number = Some n, result = Some (n * n)\<rparr>))
   \<and> (cs \<noteq> [] \<and> list_all (\<lambda>c. digit_value c \<noteq> None) cs \<and> too_many_digits L (length cs) \<longrightarrow>
      py_int L cs = Inl ValueError)"
proof (intro conjI impI)
  assume a: "CHR 0x0A \<notin> set name \<and> \<not> too_many_digits L (length (digits_of (nat \<bar>n * n\<bar>)))"
  then have nl: "CHR 0x0A \<notin> set name"
    and sq: "\<not> too_many_digits L (length (digits_of (nat \<bar>n * n\<bar>)))" by simp_all
  have "length (digits_of (nat \<bar>n\<bar>)) \<le> length (digits_of (nat \<bar>n * n\<bar>))"
    by (rule digits_of_length_mono) (rule abs_le_square)
  with sq have num: "\<not> too_many_digits L (length (digits_of (nat \<bar>n\<bar>)))"
    using too_many_digits_mono by blast
  have r1: "read_line (name @ CHR 0x0A # decimal n @ [CHR 0x0A]) = (name, decimal n @ [CHR 0x0A])"
    using nl by (rule read_line_terminated)
  have r2: "read_line (decimal n @ [CHR 0x0A]) = (decimal n, [])"
    using decimal_no_newline by (rule read_line_terminated)
  have ne: "decimal n @ [CHR 0x0A] \<noteq> []" by simp
  show "main_py L (name @ [CHR 0x0A] @ decimal n @ [CHR 0x0A]) =
      (None,
       \<lparr>stdin = [],
        trace = [Prompt ''Please enter your name: '', ReadLine name,
                 Print (''Hello, '' @ name @ ''! Welcome to the improved code.''),
                 Prompt ''Enter a number to square: '', ReadLine (decimal n),
                 Print (''The square of '' @ decimal n @ '' is '' @ decimal (n * n))],
        user_name = Some name,
        greeting = Some (''Hello, '' @ name @ ''! Welcome to the improved code.''),
        number = Some n, result = Some (n * n)\<rparr>)"
    using sq num by (simp add: main_py_cases r1 r2 py_int_decimal Let_def)
next
  assume "cs \<noteq> [] \<and> list_all (\<lambda>c. digit_value c \<noteq> None) cs \<and> too_many_digits L (length cs)"
  then show "py_int L cs = Inl ValueError"
    by (simp add: py_int_digit_string)
qed

theorem unbounded_square_witness:
  "CHR 0x0A \<notin> set ''Ada'' \<and> \<not> too_many_digits 4300 (length (digits_of (nat \<bar>- 12 * - 12\<bar>)))
   \<and> main_py 4300 ''Ada\<newline>-12\<newline>'' =
      (None,
       \<lparr>stdin = [],
        trace = [Prompt ''Please enter your name: '', ReadLine ''Ada'',
                 Print ''Hello, Ada! Welcome to the improved code.'',
                 Prompt ''Enter a number to square: '', ReadLine ''-12'',
                 Print ''The square of -12 is 144''],
        user_name = Some ''Ada'',
        greeting = Some ''Hello, Ada! Welcome to the improved code.'',
        number = Some (- 12), result = Some 144\<rparr>)
   \<and> replicate 641 CHR ''1'' \<noteq> [] \<and> list_all (\<lambda>c. digit_value c \<noteq> None) (replicate 641 CHR ''1'')
   \<and> too_many_digits 640 (length (replicate 641 CHR ''1''))
   \<and> py_int 640 (replicate 641 CHR ''1'') = Inl ValueError"
  using unbounded_square [of "''Ada''" 4300 "- 12" "[]"]
    unbounded_square [of "[]" 640 0 "replicate 641 CHR ''1''"]
  by (simp add: decimal_def digits_of.simps digit_char_numerals too_many_digits_def list_all_iff digit_value_def)

end
